theory Spec2Isabelle
  imports Main "HOL-Library.Sublist"
begin

section \<open>Python values the model needs\<close>

text \<open>
  The exceptions that the modelled functions of \<^verbatim>\<open>pretext/utils.py\<close> and
  \<^verbatim>\<open>pretext/cli.py\<close> can raise. A function that may raise returns
  \<open>py_error + 'a\<close>, with \<open>Inl\<close> for the exception. \<open>GaiError\<close> is
  \<^verbatim>\<open>socket.gaierror\<close>. \<open>Unmodelled\<close> is not an
  exception: it is the answer of the model where a library is called outside the
  fragment of it that the model describes.
\<close>

datatype py_error =
    AttributeError
  | TypeError
  | RecursionError
  | XPathEvalError
  | XMLSyntaxError
  | IndexError
  | FileNotFoundError
  | GaiError
  | OverflowError
  | OSError
  | Unmodelled

section \<open>The path functions of \<^verbatim>\<open>posixpath\<close>\<close>

text \<open>
  \<^verbatim>\<open>os.path.join(a, b)\<close> for two components, \<^verbatim>\<open>os.path.dirname\<close>,
  \<^verbatim>\<open>os.path.isabs\<close>, \<^verbatim>\<open>os.path.normpath\<close> and \<^verbatim>\<open>os.path.abspath\<close>, as the
  standard library defines them on POSIX. A path is a \<open>string\<close>.
\<close>

abbreviation sep :: char where
  "sep \<equiv> CHR ''/''"

definition isabs :: "string \<Rightarrow> bool" where
  "isabs s = (case s of [] \<Rightarrow> False | c # _ \<Rightarrow> c = sep)"

definition join :: "string \<Rightarrow> string \<Rightarrow> string" where
  "join a b =
     (if isabs b then b
      else if a = [] \<or> last a = sep then a @ b
      else a @ sep # b)"

definition rstrip_sep :: "string \<Rightarrow> string" where
  "rstrip_sep s = rev (dropWhile (\<lambda>c. c = sep) (rev s))"

definition dirname :: "string \<Rightarrow> string" where
  "dirname p =
     (let head = rev (dropWhile (\<lambda>c. c \<noteq> sep) (rev p))
      in if head \<noteq> [] \<and> \<not> list_all (\<lambda>c. c = sep) head then rstrip_sep head else head)"

text \<open>
  \<^verbatim>\<open>os.path.normpath\<close> and \<^verbatim>\<open>os.path.abspath\<close>. \<open>split_sep\<close> is
  \<^verbatim>\<open>path.split('/')\<close>, \<open>join_sep\<close> is \<^verbatim>\<open>'/'.join(comps)\<close>, and \<open>norm_comp\<close> is
  the body of the loop over the components, with \<^verbatim>\<open>new_comps\<close> as its state.
  \<open>abspath\<close> takes the current working directory as an argument.
\<close>

fun split_sep :: "string \<Rightarrow> string list" where
  "split_sep [] = [[]]"
| "split_sep (c # cs) =
     (if c = sep then [] # split_sep cs
      else (case split_sep cs of w # ws \<Rightarrow> (c # w) # ws | [] \<Rightarrow> [[c]]))"

fun join_sep :: "string list \<Rightarrow> string" where
  "join_sep [] = []"
| "join_sep [x] = x"
| "join_sep (x # y # ys) = x @ sep # join_sep (y # ys)"

definition norm_comp :: "nat \<Rightarrow> string list \<Rightarrow> string \<Rightarrow> string list" where
  "norm_comp initial_slashes new_comps comp' =
     (if comp' = [] \<or> comp' = ''.'' then new_comps
      else if comp' \<noteq> ''..'' \<or> (initial_slashes = 0 \<and> new_comps = [])
              \<or> (new_comps \<noteq> [] \<and> last new_comps = ''..'')
           then new_comps @ [comp']
      else if new_comps \<noteq> [] then butlast new_comps
      else new_comps)"

definition normpath :: "string \<Rightarrow> string" where
  "normpath path =
     (if path = [] then ''.''
      else let initial_slashes =
                 (if isabs path
                  then (if take 2 path = ''//'' \<and> take 3 path \<noteq> ''///'' then 2 else 1)
                  else 0);
               comps = foldl (norm_comp initial_slashes) [] (split_sep path);
               joined = replicate initial_slashes sep @ join_sep comps
           in if joined = [] then ''.'' else joined)"

definition abspath :: "string \<Rightarrow> string \<Rightarrow> string" where
  "abspath cwd path = normpath (if isabs path then path else join cwd path)"

section \<open>Locating the project: \<^verbatim>\<open>project_path\<close>\<close>

text \<open>
  \<^verbatim>\<open>
  def project_path(dirpath=os.getcwd()):
      if os.path.isfile(os.path.join(dirpath,'project.ptx')):
          return dirpath
      parentpath = os.path.dirname(dirpath)
      if parentpath == dirpath:
          return None
      else:
          return project_path(dirpath=parentpath)
  \<close>
  The file system enters through \<open>isfile\<close>, the answer of \<^verbatim>\<open>os.path.isfile\<close>
  for each path (it returns \<open>False\<close> instead of raising when the path cannot be read).

  The function calls itself once for each ancestor it visits, and every call takes a
  frame of the interpreter's stack: a call that would exceed
  \<^verbatim>\<open>sys.getrecursionlimit()\<close> (1000 unless it was changed) raises
  \<^verbatim>\<open>RecursionError\<close>. \<open>frames\<close> is the number of calls of \<^verbatim>\<open>project_path\<close> that
  can still be nested at the place of the call: the limit, less the frames in use
  there, less the frame that the library functions called inside need.
\<close>

function project_path :: "nat \<Rightarrow> (string \<Rightarrow> bool) \<Rightarrow> string \<Rightarrow> py_error + string option" where
  "project_path frames isfile dirpath =
     (if frames = 0 then Inl RecursionError
      else if isfile (join dirpath ''project.ptx'') then Inr (Some dirpath)
      else let parentpath = dirname dirpath
           in if parentpath = dirpath then Inr None
              else project_path (frames - 1) isfile parentpath)"
  by pat_completeness auto
termination
  by (relation "measure (\<lambda>(frames, isfile, dirpath). frames)") auto

section \<open>XML documents as \<^verbatim>\<open>lxml\<close> presents them\<close>

text \<open>
  An element has a tag, the text before its first child (\<^verbatim>\<open>.text\<close>, \<open>None\<close> when
  there is none), its children in document order and the text that follows it inside
  its parent (\<^verbatim>\<open>.tail\<close>). Comments and processing instructions are children too;
  their tag is not an element name, so no name test selects them.
\<close>

datatype xml =
  Element (tag: string) (etext: "string option") (children: "xml list") (tail: "string option")

text \<open>
  \<^verbatim>\<open>element.find(path)\<close> for a path of element names separated by \<^verbatim>\<open>/\<close>, the only
  paths this code base writes (\<^verbatim>\<open>"targets/target"\<close>, \<^verbatim>\<open>"source"\<close>, ...). The path is
  the list of its names. \<open>iterfind\<close> yields the matches in document order and
  \<open>find_elem\<close> is the first of them, or \<open>None\<close>.
\<close>

primrec iterfind :: "string list \<Rightarrow> xml \<Rightarrow> xml list" where
  "iterfind [] e = [e]"
| "iterfind (t # ts) e = concat (map (iterfind ts) (filter (\<lambda>c. tag c = t) (children e)))"

definition find_elem :: "xml \<Rightarrow> string list \<Rightarrow> xml option" where
  "find_elem e path = (case iterfind path e of [] \<Rightarrow> None | x # _ \<Rightarrow> Some x)"

text \<open>
  \<^verbatim>\<open>str.strip()\<close> removes leading and trailing whitespace. A \<open>char\<close> is a code
  point below 256; of these, \<^verbatim>\<open>str.isspace\<close> holds for the twelve listed here.
\<close>

definition py_isspace :: "char \<Rightarrow> bool" where
  "py_isspace c = (of_char c \<in> {9, 10, 11, 12, 13, 28, 29, 30, 31, 32, 133, 160 :: nat})"

definition strip :: "string \<Rightarrow> string" where
  "strip s = rev (dropWhile py_isspace (rev (dropWhile py_isspace s)))"

section \<open>The manifest: \<^verbatim>\<open>project_xml\<close> and \<^verbatim>\<open>update_from_project_xml\<close>\<close>

text \<open>
  What the functions read from outside: \<open>fs_isfile\<close> answers \<^verbatim>\<open>os.path.isfile\<close>,
  \<open>fs_isdir\<close> answers \<^verbatim>\<open>os.path.isdir\<close>,
  \<open>fs_parse\<close> is the result of \<^verbatim>\<open>ET.parse\<close> on a path (the root element, or the
  exception it raises), \<open>import_cwd\<close> is the value of \<^verbatim>\<open>os.getcwd()\<close> when the
  module was imported: the default of every \<^verbatim>\<open>dirpath\<close> parameter, and
  \<open>py_frames\<close> is the number of nested calls of \<^verbatim>\<open>project_path\<close> that the
  recursion limit leaves room for where these functions call it.
\<close>

record env =
  fs_isfile :: "string \<Rightarrow> bool"
  fs_isdir :: "string \<Rightarrow> bool"
  fs_parse :: "string \<Rightarrow> py_error + xml"
  import_cwd :: string
  py_frames :: nat

text \<open>
  \<^verbatim>\<open>
  def project_xml(dirpath=os.getcwd()):
      if project_path(dirpath) is None:
          return ET.ElementTree(ET.Element("project"))
      return ET.parse(os.path.join(project_path(dirpath),'project.ptx'))
  \<close>
\<close>

definition project_xml :: "env \<Rightarrow> string \<Rightarrow> py_error + xml" where
  "project_xml env dirpath =
     (case project_path (py_frames env) (fs_isfile env) dirpath of
        Inl e \<Rightarrow> Inl e
      | Inr None \<Rightarrow> Inr (Element ''project'' None [] None)
      | Inr (Some root) \<Rightarrow> fs_parse env (join root ''project.ptx''))"

text \<open>
  \<^verbatim>\<open>
  def update_from_project_xml(xpath,default=None):
      custom = project_xml().find(xpath)
      if custom is not None:
          return custom.text.strip()
      else:
          return default
  \<close>
  \<^verbatim>\<open>custom.text\<close> is \<^verbatim>\<open>None\<close> for an element without text, and
  \<^verbatim>\<open>None.strip()\<close> raises \<^verbatim>\<open>AttributeError\<close>.
\<close>

definition update_from_project_xml ::
  "env \<Rightarrow> string list \<Rightarrow> string option \<Rightarrow> py_error + string option" where
  "update_from_project_xml env xpath default' =
     (case project_xml env (import_cwd env) of
        Inl e \<Rightarrow> Inl e
      | Inr doc \<Rightarrow>
          (case find_elem doc xpath of
             Some custom \<Rightarrow>
               (case etext custom of
                  None \<Rightarrow> Inl AttributeError
                | Some t \<Rightarrow> Inr (Some (strip t)))
           | None \<Rightarrow> Inr default'))"

section \<open>The alias lookup: \<^verbatim>\<open>target_xml\<close>\<close>

subsection \<open>The XPath expressions the lookup can produce\<close>

text \<open>
  \<^verbatim>\<open>target_xml\<close> writes the alias into an XPath expression and hands the string to
  \<^verbatim>\<open>lxml\<close>. The model reads the string as XPath 1.0 does: a lexer (string literals
  are delimited by \<^verbatim>\<open>"\<close> or \<^verbatim>\<open>'\<close> and have no escape), then a parser for the
  fragment
  \<^verbatim>\<open>name/name/.../name[ e or e ... ]\<close> where each \<^verbatim>\<open>e\<close> is a conjunction of
  comparisons \<^verbatim>\<open>a\<close>, \<^verbatim>\<open>a = b\<close> or \<^verbatim>\<open>a != b\<close> over literals and \<^verbatim>\<open>text()\<close>.
  A literal that is not closed is an invalid expression for every XPath parser:
  \<^verbatim>\<open>lxml\<close> raises \<^verbatim>\<open>XPathEvalError\<close>. An expression that lexes but lies outside
  the fragment gets the answer \<open>Unmodelled\<close>: the model does not say what
  \<^verbatim>\<open>lxml\<close> does with it.
\<close>

abbreviation dquote :: char where
  "dquote \<equiv> CHR 0x22"

abbreviation squote :: char where
  "squote \<equiv> CHR 0x27"

datatype token = TName string | TLit string | TSym char

datatype lex_state = Idle | InName string | InLit char string

definition is_name_char :: "char \<Rightarrow> bool" where
  "is_name_char c =
     (let n = (of_char c :: nat)
      in (97 \<le> n \<and> n \<le> 122) \<or> (65 \<le> n \<and> n \<le> 90) \<or> (48 \<le> n \<and> n \<le> 57)
         \<or> n = 45 \<or> n = 46 \<or> n = 95)"

definition is_xpath_space :: "char \<Rightarrow> bool" where
  "is_xpath_space c = (of_char c \<in> {9, 10, 13, 32 :: nat})"

definition lex_idle :: "char \<Rightarrow> lex_state \<times> token list" where
  "lex_idle c =
     (if c = dquote \<or> c = squote then (InLit c [], [])
      else if is_name_char c then (InName [c], [])
      else if is_xpath_space c then (Idle, [])
      else (Idle, [TSym c]))"

fun lex_step :: "lex_state \<Rightarrow> char \<Rightarrow> lex_state \<times> token list" where
  "lex_step Idle c = lex_idle c"
| "lex_step (InName n) c =
     (if is_name_char c then (InName (n @ [c]), [])
      else (case lex_idle c of (s, out) \<Rightarrow> (s, TName n # out)))"
| "lex_step (InLit q l) c =
     (if c = q then (Idle, [TLit l]) else (InLit q (l @ [c]), []))"

fun lex_end :: "lex_state \<Rightarrow> token list option" where
  "lex_end Idle = Some []"
| "lex_end (InName n) = Some [TName n]"
| "lex_end (InLit q l) = None"

fun lex :: "lex_state \<Rightarrow> string \<Rightarrow> token list option" where
  "lex s [] = lex_end s"
| "lex s (c # cs) = (case lex_step s c of (s', out) \<Rightarrow> map_option ((@) out) (lex s' cs))"

datatype operand = OLit string | OText

datatype comparison = CBool operand | CEq operand operand | CNeq operand operand

fun split_on :: "('a \<Rightarrow> bool) \<Rightarrow> 'a list \<Rightarrow> 'a list list" where
  "split_on P [] = [[]]"
| "split_on P (x # xs) =
     (if P x then [] # split_on P xs
      else (case split_on P xs of w # ws \<Rightarrow> (x # w) # ws | [] \<Rightarrow> [[x]]))"

fun parse_operand :: "token list \<Rightarrow> operand option" where
  "parse_operand [TLit s] = Some (OLit s)"
| "parse_operand [TName n, TSym a, TSym b] =
     (if n = ''text'' \<and> a = CHR ''('' \<and> b = CHR '')'' then Some OText else None)"
| "parse_operand _ = None"

definition parse_comparison :: "token list \<Rightarrow> comparison option" where
  "parse_comparison ts =
     (case split_on (\<lambda>t. t = TSym CHR ''='') ts of
        [a] \<Rightarrow> map_option CBool (parse_operand a)
      | [a, b] \<Rightarrow>
          (if a \<noteq> [] \<and> last a = TSym CHR ''!''
           then (case (parse_operand (butlast a), parse_operand b) of
                   (Some x, Some y) \<Rightarrow> Some (CNeq x y) | _ \<Rightarrow> None)
           else (case (parse_operand a, parse_operand b) of
                   (Some x, Some y) \<Rightarrow> Some (CEq x y) | _ \<Rightarrow> None))
      | _ \<Rightarrow> None)"

fun all_some :: "'a option list \<Rightarrow> 'a list option" where
  "all_some [] = Some []"
| "all_some (None # xs) = None"
| "all_some (Some x # xs) = map_option ((#) x) (all_some xs)"

text \<open>A predicate in disjunctive form: a list (\<^verbatim>\<open>or\<close>) of lists (\<^verbatim>\<open>and\<close>) of comparisons.\<close>

definition parse_predicate :: "token list \<Rightarrow> comparison list list option" where
  "parse_predicate ts =
     all_some (map (\<lambda>conj. all_some (map parse_comparison (split_on (\<lambda>t. t = TName ''and'') conj)))
                   (split_on (\<lambda>t. t = TName ''or'') ts))"

fun parse_steps :: "token list \<Rightarrow> (string list \<times> token list) option" where
  "parse_steps [TName n] = Some ([n], [])"
| "parse_steps (TName n # TSym c # rest) =
     (if c = sep then map_option (\<lambda>(ns, r). (n # ns, r)) (parse_steps rest)
      else Some ([n], TSym c # rest))"
| "parse_steps _ = None"

definition parse_query :: "token list \<Rightarrow> (string list \<times> comparison list list) option" where
  "parse_query ts =
     (case parse_steps ts of
        None \<Rightarrow> None
      | Some (names, rest) \<Rightarrow>
          (if 2 \<le> length rest \<and> hd rest = TSym CHR ''['' \<and> last rest = TSym CHR '']''
           then map_option (Pair names) (parse_predicate (butlast (tl rest)))
           else None))"

text \<open>
  Evaluation. The text nodes of an element are its \<^verbatim>\<open>.text\<close> and the \<^verbatim>\<open>.tail\<close>
  of each child. A node set compared with a string is true when some node has that
  string value; alone in a predicate, a string is true when it is not empty and a
  node set when it has a node.
\<close>

definition text_nodes :: "xml \<Rightarrow> string list" where
  "text_nodes e =
     (case etext e of None \<Rightarrow> [] | Some t \<Rightarrow> [t])
     @ concat (map (\<lambda>c. case tail c of None \<Rightarrow> [] | Some t \<Rightarrow> [t]) (children e))"

datatype xvalue = VStr string | VNodes "string list"

fun eval_operand :: "xml \<Rightarrow> operand \<Rightarrow> xvalue" where
  "eval_operand e (OLit s) = VStr s"
| "eval_operand e OText = VNodes (text_nodes e)"

fun xvalue_true :: "xvalue \<Rightarrow> bool" where
  "xvalue_true (VStr s) = (s \<noteq> [])"
| "xvalue_true (VNodes ns) = (ns \<noteq> [])"

fun xvalue_eq :: "xvalue \<Rightarrow> xvalue \<Rightarrow> bool" where
  "xvalue_eq (VStr a) (VStr b) = (a = b)"
| "xvalue_eq (VNodes ms) (VStr b) = list_ex (\<lambda>m. m = b) ms"
| "xvalue_eq (VStr a) (VNodes ns) = list_ex (\<lambda>n. a = n) ns"
| "xvalue_eq (VNodes ms) (VNodes ns) = list_ex (\<lambda>m. list_ex (\<lambda>n. m = n) ns) ms"

fun xvalue_neq :: "xvalue \<Rightarrow> xvalue \<Rightarrow> bool" where
  "xvalue_neq (VStr a) (VStr b) = (a \<noteq> b)"
| "xvalue_neq (VNodes ms) (VStr b) = list_ex (\<lambda>m. m \<noteq> b) ms"
| "xvalue_neq (VStr a) (VNodes ns) = list_ex (\<lambda>n. a \<noteq> n) ns"
| "xvalue_neq (VNodes ms) (VNodes ns) = list_ex (\<lambda>m. list_ex (\<lambda>n. m \<noteq> n) ns) ms"

fun eval_comparison :: "xml \<Rightarrow> comparison \<Rightarrow> bool" where
  "eval_comparison e (CBool a) = xvalue_true (eval_operand e a)"
| "eval_comparison e (CEq a b) = xvalue_eq (eval_operand e a) (eval_operand e b)"
| "eval_comparison e (CNeq a b) = xvalue_neq (eval_operand e a) (eval_operand e b)"

definition eval_predicate :: "comparison list list \<Rightarrow> xml \<Rightarrow> bool" where
  "eval_predicate p e = list_ex (list_all (eval_comparison e)) p"

text \<open>
  The nodes a path of child steps selects from the context element, in document
  order. Each comes with its parent, which \<^verbatim>\<open>lxml\<close> reaches by \<^verbatim>\<open>getparent()\<close>.
\<close>

fun xpath_path :: "string list \<Rightarrow> xml \<Rightarrow> (xml \<times> xml) list" where
  "xpath_path [] e = []"
| "xpath_path [t] e = map (Pair e) (filter (\<lambda>c. tag c = t) (children e))"
| "xpath_path (t # ts) e = concat (map (xpath_path ts) (filter (\<lambda>c. tag c = t) (children e)))"

text \<open>\<^verbatim>\<open>tree.xpath(expr)\<close>: the context node is the root element.\<close>

definition etree_xpath :: "xml \<Rightarrow> string \<Rightarrow> py_error + (xml \<times> xml) list" where
  "etree_xpath root expr =
     (case lex Idle expr of
        None \<Rightarrow> Inl XPathEvalError
      | Some toks \<Rightarrow>
          (case parse_query toks of
             None \<Rightarrow> Inl Unmodelled
           | Some (names, p) \<Rightarrow>
               Inr (filter (\<lambda>(parent, node). eval_predicate p node) (xpath_path names root))))"

subsection \<open>\<^verbatim>\<open>target_xml\<close>\<close>

text \<open>
  \<^verbatim>\<open>
  def target_xml(alias=None,dirpath=os.getcwd()):
      if alias is None:
          return project_xml().find("targets/target")
      xpath = f'targets/target/alias[text()="{alias}"]'
      matches = project_xml().xpath(xpath)
      if len(matches) == 0:
          log.info(f"No targets with alias {alias} found in project manifest file project.ptx.")
          return None
      return project_xml().xpath(xpath)[0].getparent()
  \<close>
  The result is the returned value (or the exception) and the lines logged at level
  \<^verbatim>\<open>INFO\<close>. \<^verbatim>\<open>project_xml()\<close> is called without \<^verbatim>\<open>dirpath\<close>, so the parameter is
  not used.
\<close>

definition alias_xpath :: "string \<Rightarrow> string" where
  "alias_xpath alias = ''targets/target/alias[text()='' @ [dquote] @ alias @ [dquote] @ '']''"

definition target_xml ::
  "env \<Rightarrow> string option \<Rightarrow> string \<Rightarrow> (py_error + xml option) \<times> string list" where
  "target_xml env alias dirpath =
     (case alias of
        None \<Rightarrow>
          (case project_xml env (import_cwd env) of
             Inl e \<Rightarrow> (Inl e, [])
           | Inr doc \<Rightarrow> (Inr (find_elem doc [''targets'', ''target'']), []))
      | Some a \<Rightarrow>
          (case project_xml env (import_cwd env) of
             Inl e \<Rightarrow> (Inl e, [])
           | Inr doc \<Rightarrow>
               (case etree_xpath doc (alias_xpath a) of
                  Inl e \<Rightarrow> (Inl e, [])
                | Inr matches \<Rightarrow>
                    if length matches = 0
                    then (Inr None,
                          [''No targets with alias '' @ a
                           @ '' found in project manifest file project.ptx.''])
                    else
                      (case project_xml env (import_cwd env) of
                         Inl e \<Rightarrow> (Inl e, [])
                       | Inr doc' \<Rightarrow>
                           (case etree_xpath doc' (alias_xpath a) of
                              Inl e \<Rightarrow> (Inl e, [])
                            | Inr [] \<Rightarrow> (Inl IndexError, [])
                            | Inr ((parent, node) # _) \<Rightarrow> (Inr (Some parent), []))))))"

section \<open>The rebuild on change: \<^verbatim>\<open>HTMLRebuildHandler\<close>\<close>

text \<open>
  \<^verbatim>\<open>
  class HTMLRebuildHandler(watchdog.events.FileSystemEventHandler):
      def __init__(self,target):
          self.ptxfile = target.find("source").text.strip()
          self.output = target.find("output-dir").text.strip()
          pub_relpath = target.find("publication").text.strip()
          pub_abspath = os.path.abspath(pub_relpath)
          self.stringparams = {"publisher": pub_abspath}
      def on_any_event(self,event):
          log.info("Changes to source found, rebuilding target...")
          build.html(self.ptxfile,self.output,self.stringparams)
  \<close>
  \<open>find_text_strip target name\<close> is the expression
  \<^verbatim>\<open>target.find(name).text.strip()\<close>: it raises \<^verbatim>\<open>AttributeError\<close> when the child
  is missing (\<^verbatim>\<open>find\<close> returns \<^verbatim>\<open>None\<close>) and when the child has no text. The
  dictionary \<^verbatim>\<open>stringparams\<close> is an association list.
\<close>

definition find_text_strip :: "xml \<Rightarrow> string \<Rightarrow> py_error + string" where
  "find_text_strip target name =
     (case find_elem target [name] of
        None \<Rightarrow> Inl AttributeError
      | Some e \<Rightarrow> (case etext e of None \<Rightarrow> Inl AttributeError | Some t \<Rightarrow> Inr (strip t)))"

record handler =
  ptxfile :: string
  output' :: string
  stringparams :: "(string \<times> string) list"

definition HTMLRebuildHandler_init :: "string \<Rightarrow> xml \<Rightarrow> py_error + handler" where
  "HTMLRebuildHandler_init cwd target =
     (case find_text_strip target ''source'' of
        Inl e \<Rightarrow> Inl e
      | Inr src \<Rightarrow>
          (case find_text_strip target ''output-dir'' of
             Inl e \<Rightarrow> Inl e
           | Inr out \<Rightarrow>
               (case find_text_strip target ''publication'' of
                  Inl e \<Rightarrow> Inl e
                | Inr pub_relpath \<Rightarrow>
                    (let pub_abspath = abspath cwd pub_relpath
                     in Inr \<lparr>ptxfile = src, output' = out,
                             stringparams = [(''publisher'', pub_abspath)]\<rparr>))))"

text \<open>
  The events \<^verbatim>\<open>watchdog\<close> delivers. What the handler does is seen in the lines it
  logs and in the calls of the builder \<^verbatim>\<open>build.html\<close>, recorded with their three
  arguments in the order of the calls. The builder is an external collaborator: it is
  taken to leave the dictionary it is given as it is.
\<close>

datatype event_type = EvMoved | EvDeleted | EvCreated | EvModified | EvClosed | EvOpened

record fs_event =
  ev_type :: event_type
  src_path :: string
  is_directory :: bool

record rebuilds =
  info_log :: "string list"
  html_calls :: "(string \<times> string \<times> (string \<times> string) list) list"

definition on_any_event :: "handler \<Rightarrow> fs_event \<Rightarrow> rebuilds \<Rightarrow> rebuilds" where
  "on_any_event self event w =
     w\<lparr>info_log := info_log w @ [''Changes to source found, rebuilding target...''],
       html_calls := html_calls w @ [(ptxfile self, output' self, stringparams self)]\<rparr>"

text \<open>
  \<^verbatim>\<open>FileSystemEventHandler.dispatch\<close> calls \<^verbatim>\<open>on_any_event\<close> and then the method
  of the event's type, which the class does not override and which does nothing.
  The observer dispatches the events one after the other.
\<close>

definition dispatch :: "handler \<Rightarrow> fs_event \<Rightarrow> rebuilds \<Rightarrow> rebuilds" where
  "dispatch self event w =
     (let w' = on_any_event self event w
      in case ev_type event of
           EvMoved \<Rightarrow> w' | EvDeleted \<Rightarrow> w' | EvCreated \<Rightarrow> w'
         | EvModified \<Rightarrow> w' | EvClosed \<Rightarrow> w' | EvOpened \<Rightarrow> w')"

fun observe :: "handler \<Rightarrow> fs_event list \<Rightarrow> rebuilds \<Rightarrow> rebuilds" where
  "observe self [] w = w"
| "observe self (event # events) w = observe self events (dispatch self event w)"

section \<open>The preview server: \<^verbatim>\<open>serve_forever\<close>\<close>

text \<open>
  \<^verbatim>\<open>
  def serve_forever(directory,binding,port):
      class RequestHandler(SimpleHTTPRequestHandler):
          def __init__(self, *args, **kwargs):
              super().__init__(*args, directory=directory, **kwargs)
          def end_headers(self):
              self.send_my_headers()
              SimpleHTTPRequestHandler.end_headers(self)
          def send_my_headers(self):
              self.send_header("Cache-Control", "no-cache, no-store, must-revalidate")
              self.send_header("Pragma", "no-cache")
              self.send_header("Expires", "0")
      class TCPServer(socketserver.TCPServer):
          allow_reuse_address = True
      with TCPServer((binding, port), RequestHandler) as httpd:
          httpd.serve_forever()
  \<close>
  The handler writes a response through the methods of
  \<^verbatim>\<open>http.server.BaseHTTPRequestHandler\<close>: \<^verbatim>\<open>send_response\<close> and \<^verbatim>\<open>send_header\<close>
  append lines to \<^verbatim>\<open>_headers_buffer\<close>, and \<^verbatim>\<open>end_headers\<close> appends the blank line
  and writes the buffer to \<^verbatim>\<open>wfile\<close>. Each of the three does nothing when
  \<^verbatim>\<open>request_version\<close> is \<^verbatim>\<open>'HTTP/0.9'\<close>, the value it has for a request line
  without a version and as long as no version of a request line has been accepted: such
  a response has no header section. The state of a handler is the request version, the buffer and the
  bytes written so far. (\<^verbatim>\<open>send_header\<close> also sets \<^verbatim>\<open>close_connection\<close> for a
  \<^verbatim>\<open>Connection\<close> header, which none of the three headers is.)
\<close>

abbreviation crlf :: string where
  "crlf \<equiv> [CHR 0x0D, CHR 0x0A]"

record request_handler =
  request_version :: string
  headers_buffer :: "string list"
  wfile :: string

definition send_header :: "string \<Rightarrow> string \<Rightarrow> request_handler \<Rightarrow> request_handler" where
  "send_header keyword val self =
     (if request_version self \<noteq> ''HTTP/0.9''
      then self\<lparr>headers_buffer := headers_buffer self @ [keyword @ '': '' @ val @ crlf]\<rparr>
      else self)"

definition flush_headers :: "request_handler \<Rightarrow> request_handler" where
  "flush_headers self =
     self\<lparr>wfile := wfile self @ concat (headers_buffer self), headers_buffer := []\<rparr>"

definition base_end_headers :: "request_handler \<Rightarrow> request_handler" where
  "base_end_headers self =
     (if request_version self \<noteq> ''HTTP/0.9''
      then flush_headers (self\<lparr>headers_buffer := headers_buffer self @ [crlf]\<rparr>)
      else self)"

definition send_my_headers :: "request_handler \<Rightarrow> request_handler" where
  "send_my_headers self =
     send_header ''Expires'' ''0''
       (send_header ''Pragma'' ''no-cache''
          (send_header ''Cache-Control'' ''no-cache, no-store, must-revalidate'' self))"

definition end_headers :: "request_handler \<Rightarrow> request_handler" where
  "end_headers self = base_end_headers (send_my_headers self)"

text \<open>
  The listening socket. \<^verbatim>\<open>TCPServer((binding, port), RequestHandler)\<close> binds a
  socket with \<^verbatim>\<open>allow_reuse_address\<close> set and keeps as \<^verbatim>\<open>server_address\<close> what
  \<^verbatim>\<open>getsockname()\<close> returns: the address the host was resolved to and the port in
  use. What the network answers is a parameter:
  \<^item> the empty host is the wildcard address \<^verbatim>\<open>0.0.0.0\<close> (all interfaces), a dotted
    quad in decimal without leading zeros is its own address, and every other host is
    resolved by \<open>getaddrinfo\<close>, which fails with \<^verbatim>\<open>socket.gaierror\<close> (\<open>None\<close>);
  \<^item> a port outside 0..65535 raises \<^verbatim>\<open>OverflowError\<close>;
  \<^item> for the port 0 the system chooses a port, \<open>ephemeral_port\<close>;
  \<^item> \<open>can_bind\<close> says whether the system lets the process bind the address (it is an
    address of this machine, and the port is free and permitted); otherwise
    \<^verbatim>\<open>OSError\<close> is raised.
  \<open>serve_forever\<close> then serves until the process ends; its value in the model is the
  server it has bound, or the exception that ended it.
\<close>

record net =
  getaddrinfo :: "string \<Rightarrow> string option"
  can_bind :: "string \<times> int \<Rightarrow> bool"
  ephemeral_port :: int

fun split_dots :: "string \<Rightarrow> string list" where
  "split_dots [] = [[]]"
| "split_dots (c # cs) =
     (if c = CHR ''.'' then [] # split_dots cs
      else (case split_dots cs of w # ws \<Rightarrow> (c # w) # ws | [] \<Rightarrow> [[c]]))"

definition is_digit :: "char \<Rightarrow> bool" where
  "is_digit c = (48 \<le> (of_char c :: nat) \<and> (of_char c :: nat) \<le> 57)"

definition decimal :: "string \<Rightarrow> nat" where
  "decimal s = foldl (\<lambda>n c. 10 * n + (of_char c - 48)) 0 s"

definition is_octet :: "string \<Rightarrow> bool" where
  "is_octet s =
     (s \<noteq> [] \<and> length s \<le> 3 \<and> list_all is_digit s \<and> (length s = 1 \<or> hd s \<noteq> CHR ''0'')
      \<and> decimal s \<le> 255)"

definition is_ipv4 :: "string \<Rightarrow> bool" where
  "is_ipv4 host = (length (split_dots host) = 4 \<and> list_all is_octet (split_dots host))"

definition resolve_host :: "net \<Rightarrow> string \<Rightarrow> string option" where
  "resolve_host net host =
     (if host = [] then Some ''0.0.0.0''
      else if is_ipv4 host then Some host
      else getaddrinfo net host)"

record tcp_server =
  server_address :: "string \<times> int"
  allow_reuse_address :: bool
  served_directory :: string

definition serve_forever :: "net \<Rightarrow> string \<Rightarrow> string \<Rightarrow> int \<Rightarrow> py_error + tcp_server" where
  "serve_forever net directory binding port =
     (case resolve_host net binding of
        None \<Rightarrow> Inl GaiError
      | Some ip \<Rightarrow>
          if port < 0 \<or> 65535 < port then Inl OverflowError
          else let bound = (ip, if port = 0 then ephemeral_port net else port)
               in if can_bind net bound
                  then Inr \<lparr>server_address = bound, allow_reuse_address = True,
                            served_directory = directory\<rparr>
                  else Inl OSError)"

section \<open>The preview session: \<^verbatim>\<open>run_server\<close>\<close>




section \<open>The command \<^verbatim>\<open>view\<close> and its call of \<^verbatim>\<open>run_server\<close>\<close>

text \<open>
  \<^verbatim>\<open>
  def run_server(directory,binding,port,url,watch_target):
  \<close>
  has five parameters, none with a default. A call with positional arguments binds
  them in order and raises \<^verbatim>\<open>TypeError\<close> when their number is not the number of
  parameters.
\<close>

datatype pyval = PStr string | PInt int | PBool bool | PNone

definition run_server_params :: "string list" where
  "run_server_params = [''directory'', ''binding'', ''port'', ''url'', ''watch_target'']"

definition call_positional :: "string list \<Rightarrow> pyval list \<Rightarrow> py_error + (string \<times> pyval) list" where
  "call_positional params args =
     (if length args = length params then Inr (zip params args) else Inl TypeError)"

text \<open>
  \<^verbatim>\<open>
  def view(target,access,port,directory,watch,build):
      target_name=target
      if directory is not None:
          utils.run_server(directory,access,port)
          return
      else:
          project = Project()
          target = project.target(name=target_name)
      if target is not None:
          project.view(target_name,access,port,watch,build)
      else:
          log.error(f"Target `{target_name}` could not be found.")
  \<close>
  The class \<^verbatim>\<open>Project\<close> is not part of the sources at hand: \<open>project_target\<close> says
  whether \<^verbatim>\<open>project.target\<close> finds the target, and a call of \<^verbatim>\<open>project.view\<close> is
  recorded with its arguments. \<open>view_run_server_args\<close> are the arguments of the call
  of \<^verbatim>\<open>run_server\<close>, and \<open>Served\<close> holds the parameters as the call has bound them.
\<close>

datatype view_result =
    Served "(string \<times> pyval) list"
  | ProjectView "string option" string int bool bool
  | TargetNotFound string

definition view_run_server_args :: "string \<Rightarrow> string \<Rightarrow> int \<Rightarrow> pyval list" where
  "view_run_server_args directory access port = [PStr directory, PStr access, PInt port]"

definition view ::
  "(string option \<Rightarrow> bool) \<Rightarrow> string option \<Rightarrow> string \<Rightarrow> int \<Rightarrow> string option \<Rightarrow> bool \<Rightarrow> bool
     \<Rightarrow> py_error + view_result" where
  "view project_target target access port directory watch build =
     (let target_name = target
      in case directory of
           Some d \<Rightarrow>
             (case call_positional run_server_params (view_run_server_args d access port) of
                Inl e \<Rightarrow> Inl e
              | Inr bound \<Rightarrow> Inr (Served bound))
         | None \<Rightarrow>
             (if project_target target_name
              then Inr (ProjectView target_name access port watch build)
              else Inr (TargetNotFound
                          (''Target `'' @ (case target_name of None \<Rightarrow> ''None'' | Some n \<Rightarrow> n)
                           @ ''` could not be found.''))))"

section \<open>The start of the preview server from a policy\<close>

text \<open>
  Modelled from the spec: \<^verbatim>\<open>Project.view\<close> of \<^verbatim>\<open>pretext/project.py\<close>, which
  \<^verbatim>\<open>view\<close> calls with the access policy and which chooses the address for
  \<^verbatim>\<open>run_server\<close>, is not among the sources. The spec (section 4.4) says that the
  policy selects the listening address: private binds to loopback only, public binds to
  all interfaces. The loopback interface has the address \<^verbatim>\<open>127.0.0.1\<close>, and the
  address that stands for all interfaces is \<^verbatim>\<open>0.0.0.0\<close>.
\<close>

definition binding_for_access :: "string \<Rightarrow> string" where
  "binding_for_access access = (if access = ''public'' then ''0.0.0.0'' else ''127.0.0.1'')"

text \<open>
  Modelled from the spec: the contract \<^verbatim>\<open>start(directory, bindPolicy, port)\<close> of the
  preview server (section 4.4), as \<^verbatim>\<open>Project.view\<close> would fulfil it: the server of
  \<^verbatim>\<open>serve_forever\<close> for the directory, the address of the policy and the port.
\<close>

definition preview_server_start :: "net \<Rightarrow> string \<Rightarrow> string \<Rightarrow> int \<Rightarrow> py_error + tcp_server" where
  "preview_server_start net directory access port =
     serve_forever net directory (binding_for_access access) port"

section \<open>The context manager \<^verbatim>\<open>working_directory\<close>\<close>

text \<open>
  The process has a current working directory, and the file system has the directories
  (named by absolute normalized paths) that the process can enter. \<^verbatim>\<open>os.getcwd\<close>
  raises when the working directory no longer exists; \<^verbatim>\<open>os.chdir\<close> resolves its
  argument against the working directory and raises when the result is not such a
  directory, leaving the working directory as it was.
\<close>

record process =
  proc_cwd :: string
  proc_dirs :: "string set"

definition getcwd :: "process \<Rightarrow> py_error + string" where
  "getcwd p = (if proc_cwd p \<in> proc_dirs p then Inr (proc_cwd p) else Inl FileNotFoundError)"

definition chdir :: "string \<Rightarrow> process \<Rightarrow> py_error + process" where
  "chdir path p =
     (if path \<noteq> [] \<and> abspath (proc_cwd p) path \<in> proc_dirs p
      then Inr (p\<lparr>proc_cwd := abspath (proc_cwd p) path\<rparr>)
      else Inl FileNotFoundError)"

text \<open>
  \<^verbatim>\<open>
  @contextmanager
  def working_directory(path):
      current_directory=os.getcwd()
      os.chdir(path)
      try:
          yield
      finally:
          os.chdir(current_directory)
  \<close>
  \<open>working_directory path body\<close> is the statement
  \<^verbatim>\<open>with working_directory(path): body\<close>. The body runs on the process and ends
  normally (\<open>Inr\<close>) or with an exception (\<open>Inl\<close>). An exception raised before
  \<^verbatim>\<open>yield\<close> leaves the \<^verbatim>\<open>with\<close> statement without running the body; the
  \<^verbatim>\<open>finally\<close> clause runs on both ways out of the body, and an exception it raises
  replaces the outcome of the body.
\<close>

definition working_directory ::
  "string \<Rightarrow> (process \<Rightarrow> (py_error + 'a) \<times> process) \<Rightarrow> process \<Rightarrow> (py_error + 'a) \<times> process" where
  "working_directory path body p =
     (case getcwd p of
        Inl e \<Rightarrow> (Inl e, p)
      | Inr current_directory \<Rightarrow>
          (case chdir path p of
             Inl e \<Rightarrow> (Inl e, p)
           | Inr p1 \<Rightarrow>
               (case body p1 of
                  (r, p2) \<Rightarrow>
                    (case chdir current_directory p2 of
                       Inl e \<Rightarrow> (Inl e, p2)
                     | Inr p3 \<Rightarrow> (r, p3)))))"

section \<open>Resolving a target: the command \<^verbatim>\<open>build\<close>\<close>

text \<open>
  Modelled from the spec: the class \<^verbatim>\<open>Target\<close> of \<^verbatim>\<open>pretext/project.py\<close>, whose
  constructor \<^verbatim>\<open>build\<close> calls, is not among the sources. The spec (section 3) gives
  a target a name, an output format, a source file path, an output directory path, a
  publication file path and a custom transform file path. The mapping of string
  parameters is not modelled.
\<close>

record target =
  t_name :: "string option"
  t_format :: string
  t_source :: string
  t_output_dir :: string
  t_publication :: string
  t_xsl_path :: string

text \<open>
  Modelled from the spec: the value of a field parsed from the manifest target node,
  which \<^verbatim>\<open>Target\<close> would read, is the text of the child element named after the field
  (section 6: \<^verbatim>\<open>format\<close>, \<^verbatim>\<open>source\<close>, \<^verbatim>\<open>output-dir\<close>, \<^verbatim>\<open>publication\<close>,
  \<^verbatim>\<open>xsl\<close>), and absent when there is no node or no such child.
\<close>

definition child_text :: "xml option \<Rightarrow> string \<Rightarrow> string option" where
  "child_text xml_element name =
     (case xml_element of
        None \<Rightarrow> None
      | Some node \<Rightarrow> (case find_elem node [name] of None \<Rightarrow> None | Some e \<Rightarrow> etext e))"

text \<open>
  Modelled from the spec: the merge of one field by the constructor of \<^verbatim>\<open>Target\<close>
  (section 4.3): the override if the override is explicitly set, else the value parsed
  from the manifest target node, else a default of the component. An override that was
  not supplied is \<open>None\<close>, which differs from the empty string \<open>Some []\<close>.
\<close>

definition resolve_field :: "string option \<Rightarrow> string option \<Rightarrow> string \<Rightarrow> string" where
  "resolve_field override manifest_value component_default =
     (case override of
        Some v \<Rightarrow> v
      | None \<Rightarrow> (case manifest_value of Some m \<Rightarrow> m | None \<Rightarrow> component_default))"

text \<open>
  Modelled from the spec: the constructor of \<^verbatim>\<open>Target\<close>, with the keyword arguments
  that \<^verbatim>\<open>build\<close> passes (\<^verbatim>\<open>xml_element\<close>, \<^verbatim>\<open>name\<close>, \<^verbatim>\<open>format\<close>, \<^verbatim>\<open>source\<close>,
  \<^verbatim>\<open>output_dir\<close>, \<^verbatim>\<open>publication\<close>, \<^verbatim>\<open>xsl_path\<close>) in this order. Each field is
  merged as above; the defaults of the component are a parameter.
\<close>

definition Target_init ::
  "target \<Rightarrow> xml option \<Rightarrow> string option \<Rightarrow> string option \<Rightarrow> string option \<Rightarrow> string option
     \<Rightarrow> string option \<Rightarrow> string option \<Rightarrow> target" where
  "Target_init defaults xml_element name format source output_dir publication xsl_path =
     \<lparr>t_name = name,
      t_format = resolve_field format (child_text xml_element ''format'') (t_format defaults),
      t_source = resolve_field source (child_text xml_element ''source'') (t_source defaults),
      t_output_dir =
        resolve_field output_dir (child_text xml_element ''output-dir'') (t_output_dir defaults),
      t_publication =
        resolve_field publication (child_text xml_element ''publication'')
          (t_publication defaults),
      t_xsl_path = resolve_field xsl_path (child_text xml_element ''xsl'') (t_xsl_path defaults)\<rparr>"

text \<open>
  The options of the command, as \<^verbatim>\<open>click\<close> passes them: an option that was not given
  on the command line is \<^verbatim>\<open>None\<close> (a flag: \<^verbatim>\<open>False\<close>).
  \<^verbatim>\<open>
  def build(target, format, source, output, stringparam, xsl, publication, clean, generate,
      webwork, diagrams, diagrams_format, only_assets,):
      if diagrams or diagrams_format!="defaults" or only_assets or webwork:
          log.error(...); log.error(...)
          return
      target_name = target
      ...
      if utils.project_path() is None:
          ...
          target = Target(name=format,format=format,source=source,output_dir=output,
                          publication=publication,stringparams=stringparams)
          project = Project(targets=[target])
      else:
          project = Project()
          ...
          target = project.target(name=target_name)
          if target is None:
              log.critical(...); log.critical(...)
              return
          #overwrite target with commandline arguments, update project accordingly
          target = Target(xml_element=target.xml_element(),
                          format=format,source=source,output_dir=output,
                          publication=publication,stringparams=stringparams,xsl_path=xsl)
          project = Project(xml_element=project.xml_element(),targets=[target])
      ...
      project.build(target_name,clean)
  \<close>
  \<open>project_target name\<close> is the manifest node of the target that
  \<^verbatim>\<open>Project().target(name=name)\<close> finds (\<^verbatim>\<open>target.xml_element()\<close>), or \<open>None\<close>. The
  result is the target handed to the project for the build, or the reason why the
  command returned before, or the exception of \<^verbatim>\<open>utils.project_path()\<close>.
\<close>

record build_options =
  opt_target :: "string option"
  opt_format :: "string option"
  opt_source :: "string option"
  opt_output :: "string option"
  opt_stringparam :: "(string \<times> string) list"
  opt_xsl :: "string option"
  opt_publication :: "string option"
  opt_clean :: bool
  opt_generate :: "string option"
  opt_webwork :: bool
  opt_diagrams :: bool
  opt_diagrams_format :: string
  opt_only_assets :: bool

datatype build_result = ObsoleteOption | BuildTargetMissing | Resolved target

definition build ::
  "env \<Rightarrow> (string option \<Rightarrow> xml option) \<Rightarrow> target \<Rightarrow> build_options
     \<Rightarrow> py_error + build_result" where
  "build env project_target defaults opts =
     (if opt_diagrams opts \<or> opt_diagrams_format opts \<noteq> ''defaults'' \<or> opt_only_assets opts
         \<or> opt_webwork opts
      then Inr ObsoleteOption
      else let target_name = opt_target opts
           in case project_path (py_frames env) (fs_isfile env) (import_cwd env) of
                Inl e \<Rightarrow> Inl e
              | Inr None \<Rightarrow>
                  Inr (Resolved (Target_init defaults None (opt_format opts) (opt_format opts)
                         (opt_source opts) (opt_output opts) (opt_publication opts) None))
              | Inr (Some root) \<Rightarrow>
                  (case project_target target_name of
                     None \<Rightarrow> Inr BuildTargetMissing
                   | Some node \<Rightarrow>
                       Inr (Resolved (Target_init defaults (Some node) None (opt_format opts)
                              (opt_source opts) (opt_output opts) (opt_publication opts)
                              (opt_xsl opts)))))"

text \<open>
  The merge rule in the words of the spec, for one field: the resolved value is the
  override when an override was supplied, and the manifest value when none was supplied
  and the manifest has one.
\<close>

definition merged :: "string option \<Rightarrow> string option \<Rightarrow> string \<Rightarrow> bool" where
  "merged override manifest_value resolved =
     ((\<forall>v. override = Some v \<longrightarrow> resolved = v)
      \<and> (\<forall>m. override = None \<and> manifest_value = Some m \<longrightarrow> resolved = m))"

section \<open>An example project\<close>

text \<open>
  A manifest with the two targets of the spec's examples, \<^verbatim>\<open>intro\<close> and
  \<^verbatim>\<open>exercises\<close>, and an \<^verbatim>\<open>executables\<close> section whose \<^verbatim>\<open>latex\<close> element is
  empty. It is stored in \<^verbatim>\<open>/proj/project.ptx\<close>; the tool was started in
  \<^verbatim>\<open>/proj/source\<close>, with room for 990 nested calls under the recursion limit.
\<close>

definition intro_target :: xml where
  "intro_target =
     Element ''target'' None
       [Element ''alias'' (Some ''intro'') [] None,
        Element ''format'' (Some ''html'') [] None,
        Element ''source'' (Some '' source/main.ptx '') [] None,
        Element ''publication'' (Some ''publication/publication.ptx'') [] None,
        Element ''output-dir'' (Some ''output/html'') [] None] None"

definition exercises_target :: xml where
  "exercises_target =
     Element ''target'' None
       [Element ''alias'' (Some ''exercises'') [] None,
        Element ''format'' (Some ''pdf'') [] None,
        Element ''source'' (Some ''source/exercises.ptx'') [] None,
        Element ''publication'' (Some ''publication/publication.ptx'') [] None,
        Element ''output-dir'' (Some ''output/pdf'') [] None] None"

definition example_manifest :: xml where
  "example_manifest =
     Element ''project'' None
       [Element ''targets'' None [intro_target, exercises_target] None,
        Element ''executables'' None
          [Element ''latex'' None [] None,
           Element ''xelatex'' (Some '' xelatex '') [] None] None] None"

definition example_env :: env where
  "example_env =
     \<lparr>fs_isfile = (\<lambda>p. p = ''/proj/project.ptx''),
      fs_isdir = (\<lambda>p. p = ''/proj'' \<or> p = ''/proj/source''),
      fs_parse = (\<lambda>p. if p = ''/proj/project.ptx'' then Inr example_manifest
                       else Inl FileNotFoundError),
      import_cwd = ''/proj/source'',
      py_frames = 990\<rparr>"

text \<open>
  A host on which no name but the numeric addresses resolves, every port is free, and
  the port the system chooses for a socket bound to port 0 is 49152.
\<close>

definition example_net :: net where
  "example_net =
     \<lparr>getaddrinfo = (\<lambda>host. None), can_bind = (\<lambda>address. True), ephemeral_port = 49152\<rparr>"

section \<open>Properties of \<^verbatim>\<open>project_path\<close>\<close>

declare project_path.simps [simp del]

text \<open>
  The ancestors of \<open>d\<close> are the iterates \<open>(dirname ^^ n) d\<close>: \<open>d\<close> itself for
  \<open>n = 0\<close>, then its parent, and so on. The ascent ends at a directory that is its own
  \<open>dirname\<close>.
\<close>

text \<open>\<open>dirname\<close> returns a prefix of its argument, so it shortens a path that it changes.\<close>

lemma prefix_dirname: "prefix (dirname p) p"
proof -
  have h: "prefix (rev (dropWhile (\<lambda>c. c \<noteq> sep) (rev p))) p"
    using suffix_dropWhile [of "\<lambda>c. c \<noteq> sep" "rev p"]
    by (metis rev_rev_ident suffix_to_prefix)
  have "prefix (rstrip_sep h') h'" for h'
    unfolding rstrip_sep_def
    using suffix_dropWhile [of "\<lambda>c. c = sep" "rev h'"]
    by (metis rev_rev_ident suffix_to_prefix)
  with h show ?thesis
    unfolding dirname_def Let_def by (auto intro: prefix_order.trans)
qed

lemma dirname_shorter: "dirname p \<noteq> p \<Longrightarrow> length (dirname p) < length p"
proof -
  assume ne: "dirname p \<noteq> p"
  obtain zs where zs: "p = dirname p @ zs"
    using prefix_dirname [of p] by (auto simp: prefix_def)
  with ne have "zs \<noteq> []" by auto
  with zs show ?thesis
    by (metis length_append length_greater_0_conv less_add_same_cancel1)
qed





text \<open>
  Every call that goes on shortens the path, so a start whose path has fewer characters
  than there is room for calls never ends in \<^verbatim>\<open>RecursionError\<close>.
\<close>

lemma project_path_no_recursion_error:
  "length d < frames \<Longrightarrow> project_path frames isfile d \<noteq> Inl e"
proof (induction frames isfile d rule: project_path.induct)
  case (1 frames isfile dirpath)
  from "1.prems" have pos: "frames \<noteq> 0" by simp
  show ?case
  proof (cases "isfile (join dirpath ''project.ptx'') \<or> dirname dirpath = dirpath")
    case True
    then show ?thesis using pos
      by (subst project_path.simps) (auto simp: Let_def)
  next
    case False
    then have "length (dirname dirpath) < length dirpath"
      by (simp add: dirname_shorter)
    with "1.prems" have "length (dirname dirpath) < frames - 1" by simp
    with "1.IH" [OF pos] False
    have "project_path (frames - 1) isfile (dirname dirpath) \<noteq> Inl e" by simp
    then show ?thesis using False pos
      by (subst project_path.simps) (simp add: Let_def)
  qed
qed





section \<open>Evaluation of the model on concrete input\<close>

lemmas path_eval = project_path.simps join_def isabs_def dirname_def rstrip_sep_def

lemmas xpath_eval = etree_xpath_def alias_xpath_def lex_idle_def is_name_char_def is_xpath_space_def
  parse_query_def parse_predicate_def parse_comparison_def eval_predicate_def text_nodes_def

lemma project_xml_example:
  "project_xml example_env (import_cwd example_env) = Inr example_manifest"
  by (simp add: project_xml_def example_env_def path_eval)

section \<open>Properties of \<^verbatim>\<open>str.strip\<close>\<close>

text \<open>
  The result of \<open>strip\<close> is the string without a prefix and a suffix of whitespace,
  and it neither starts nor ends with whitespace.
\<close>

lemma strip_decomp:
  "\<exists>l r. s = l @ strip s @ r \<and> list_all py_isspace l \<and> list_all py_isspace r"
proof -
  define m where "m = dropWhile py_isspace s"
  define l where "l = takeWhile py_isspace s"
  define r where "r = rev (takeWhile py_isspace (rev m))"
  have s: "l @ m = s"
    by (simp add: m_def l_def)
  have "rev (takeWhile py_isspace (rev m) @ dropWhile py_isspace (rev m)) = m"
    by (simp only: takeWhile_dropWhile_id rev_rev_ident)
  then have m: "strip s @ r = m"
    by (simp only: rev_append strip_def m_def r_def)
  have a: "list_all py_isspace l"
    by (auto simp: l_def list_all_iff dest: set_takeWhileD)
  have b: "list_all py_isspace r"
    by (auto simp: r_def list_all_iff dest: set_takeWhileD)
  have "s = l @ strip s @ r"
    unfolding m by (rule s [symmetric])
  with a b show ?thesis by blast
qed

lemma strip_trimmed:
  "strip s \<noteq> [] \<Longrightarrow> \<not> py_isspace (hd (strip s)) \<and> \<not> py_isspace (last (strip s))"
proof -
  assume ne: "strip s \<noteq> []"
  define m where "m = dropWhile py_isspace s"
  define d where "d = dropWhile py_isspace (rev m)"
  have st: "strip s = rev d" by (simp add: strip_def m_def d_def)
  with ne have dne: "d \<noteq> []" by simp
  then have l: "\<not> py_isspace (hd d)"
    unfolding d_def using hd_dropWhile by blast
  have mne: "m \<noteq> []" using dne d_def by auto
  have "last d = last (rev m)"
    using dne unfolding d_def
    by (metis append_Nil2 last_appendR takeWhile_dropWhile_id)
  also have "\<dots> = hd m" using mne by (simp add: last_rev)
  finally have "last d = hd m" .
  moreover have "\<not> py_isspace (hd m)"
    using mne unfolding m_def using hd_dropWhile by blast
  ultimately show ?thesis using l dne by (simp add: st hd_rev last_rev)
qed

section \<open>Properties of \<^verbatim>\<open>update_from_project_xml\<close>\<close>

lemma update_from_project_xml_found:
  assumes "project_xml env (import_cwd env) = Inr doc"
    and "find_elem doc xpath = Some custom" and "etext custom = Some t"
  shows "update_from_project_xml env xpath default' = Inr (Some (strip t))"
  using assms by (simp add: update_from_project_xml_def)

lemma update_from_project_xml_absent:
  assumes "project_xml env (import_cwd env) = Inr doc" and "find_elem doc xpath = None"
  shows "update_from_project_xml env xpath default' = Inr default'"
  using assms by (simp add: update_from_project_xml_def)

lemma update_from_project_xml_no_text:
  assumes "project_xml env (import_cwd env) = Inr doc"
    and "find_elem doc xpath = Some custom" and "etext custom = None"
  shows "update_from_project_xml env xpath default' = Inl AttributeError"
  using assms by (simp add: update_from_project_xml_def)

text \<open>
  Claim C8 says that the lookup returns the trimmed text of the element whenever an
  element is present at the path, and the default otherwise. That holds for an element
  with text (\<open>update_from_project_xml_found\<close>) and for a missing element
  (\<open>update_from_project_xml_absent\<close>). For an element that is present and empty, such
  as \<^verbatim>\<open><latex/>\<close> in the example manifest, the function returns nothing: it raises
  \<^verbatim>\<open>AttributeError\<close>.
\<close>

theorem update_from_project_xml_empty_element:
  "update_from_project_xml example_env [''executables'', ''latex''] (Some ''latex'')
     = Inl AttributeError"
  by (simp add: update_from_project_xml_def project_xml_example find_elem_def
      example_manifest_def)

section \<open>Properties of \<^verbatim>\<open>target_xml\<close>\<close>

lemma map_option_append_Nil: "map_option ((@) []) x = x"
  by (cases x) auto

lemma lex_literal:
  "q \<notin> set a \<Longrightarrow>
     lex (InLit q l) (a @ q # rest) = map_option ((@) [TLit (l @ a)]) (lex Idle rest)"
  by (induction a arbitrary: l) (auto simp: map_option_append_Nil)

lemma lex_alias_xpath:
  assumes "dquote \<notin> set a"
  shows "lex Idle (alias_xpath a) =
     Some [TName ''targets'', TSym sep, TName ''target'', TSym sep, TName ''alias'',
           TSym CHR ''['', TName ''text'', TSym CHR ''('', TSym CHR '')'',
           TSym CHR ''='', TLit a, TSym CHR '']'']"
  using assms
  by (simp add: alias_xpath_def lex_idle_def is_name_char_def is_xpath_space_def lex_literal)

text \<open>
  For an alias without a double quote the expression is the comparison of
  \<^verbatim>\<open>text()\<close> with the alias as a literal, and the lookup is exact.
\<close>

lemma xpath_alias_xpath:
  assumes "dquote \<notin> set a"
  shows "etree_xpath doc (alias_xpath a) =
     Inr (filter (\<lambda>(parent, node). a \<in> set (text_nodes node))
            (xpath_path [''targets'', ''target'', ''alias''] doc))"
proof -
  have p: "parse_query [TName ''targets'', TSym sep, TName ''target'', TSym sep, TName ''alias'',
           TSym CHR ''['', TName ''text'', TSym CHR ''('', TSym CHR '')'',
           TSym CHR ''='', TLit a, TSym CHR '']'']
      = Some ([''targets'', ''target'', ''alias''], [[CEq OText (OLit a)]])"
    by (simp add: parse_query_def parse_predicate_def parse_comparison_def)
  have e: "(\<lambda>(parent :: xml, node). eval_predicate [[CEq OText (OLit a)]] node)
      = (\<lambda>(parent, node). a \<in> set (text_nodes node))"
    by (auto simp: fun_eq_iff eval_predicate_def list_ex_iff)
  show ?thesis
    by (simp add: etree_xpath_def lex_alias_xpath [OF assms] p e del: xpath_path.simps)
qed

lemma target_xml_no_alias:
  assumes "project_xml env (import_cwd env) = Inr doc"
  shows "target_xml env None d = (Inr (find_elem doc [''targets'', ''target'']), [])"
  using assms by (simp add: target_xml_def)

lemma target_xml_alias_lookup:
  assumes "dquote \<notin> set a" and "project_xml env (import_cwd env) = Inr doc"
  shows "target_xml env (Some a) d =
    (case filter (\<lambda>(parent, node). a \<in> set (text_nodes node))
            (xpath_path [''targets'', ''target'', ''alias''] doc) of
       [] \<Rightarrow> (Inr None,
              [''No targets with alias '' @ a @ '' found in project manifest file project.ptx.''])
     | (parent, node) # _ \<Rightarrow> (Inr (Some parent), []))"
  using assms
  by (simp add: target_xml_def xpath_alias_xpath split: list.splits)

text \<open>
  Claim C3 says that for every alias the lookup returns the target whose alias text is
  exactly the alias, and otherwise logs and returns \<^verbatim>\<open>None\<close>, never raising and never
  substituting a default target. That holds for every alias without a double quote
  (\<open>target_xml_alias_lookup\<close>). The alias is pasted into the XPath expression
  unescaped: on the example manifest (targets \<^verbatim>\<open>intro\<close> and \<^verbatim>\<open>exercises\<close>) the
  alias \<^verbatim>\<open>"\<close> makes the expression invalid and the lookup raises
  \<^verbatim>\<open>XPathEvalError\<close> without logging, and the alias \<^verbatim>\<open>nope" or "1\<close>, which no target
  carries, returns the first target.
\<close>

theorem target_xml_quote_in_alias:
  "target_xml example_env (Some [dquote]) ''/proj'' = (Inl XPathEvalError, [])
   \<and> target_xml example_env (Some (''nope'' @ [dquote] @ '' or '' @ [dquote] @ ''1'')) ''/proj''
       = (Inr (Some intro_target), [])"
  by (simp add: target_xml_def project_xml_example xpath_eval example_manifest_def
      intro_target_def exercises_target_def)

section \<open>Properties of \<^verbatim>\<open>HTMLRebuildHandler\<close>\<close>

lemma observe_html_calls:
  "html_calls (observe h events w)
     = html_calls w @ replicate (length events) (ptxfile h, output' h, stringparams h)"
proof (induction events arbitrary: w)
  case Nil
  then show ?case by simp
next
  case (Cons event events)
  have "html_calls (dispatch h event w) = html_calls w @ [(ptxfile h, output' h, stringparams h)]"
    by (cases "ev_type event") (simp_all add: dispatch_def on_any_event_def)
  with Cons show ?case by (simp add: replicate_app_Cons_same)
qed

lemma isabs_normpath:
  assumes "isabs p"
  shows "isabs (normpath p)"
proof -
  from assms have pne: "p \<noteq> []" by (auto simp: isabs_def)
  define n :: nat where "n = (if take 2 p = ''//'' \<and> take 3 p \<noteq> ''///'' then 2 else 1)"
  define rest where "rest = join_sep (foldl (norm_comp n) [] (split_sep p))"
  obtain k where k: "n = Suc k" by (cases n) (auto simp: n_def split: if_splits)
  have "normpath p = (if replicate n sep @ rest = [] then ''.'' else replicate n sep @ rest)"
    using assms pne unfolding normpath_def Let_def n_def rest_def by simp
  then have "normpath p = sep # replicate k sep @ rest"
    by (simp add: k)
  then show ?thesis by (simp add: isabs_def)
qed

lemma isabs_abspath: "isabs cwd \<Longrightarrow> isabs (abspath cwd p)"
proof -
  assume c: "isabs cwd"
  have "isabs (join cwd p)" if "\<not> isabs p"
    using c that by (cases cwd) (auto simp: join_def isabs_def)
  then show ?thesis
    by (auto simp: abspath_def intro: isabs_normpath)
qed

text \<open>
  Claim C7. A handler created from a target holds the target's source path, its output
  directory and the mapping from \<^verbatim>\<open>publisher\<close> to the absolute path of the
  publication file, all read when the handler is created. Every event, of whatever type
  and path, makes one call of the builder with exactly these three values: after the
  events \<open>events\<close> the builder has been called \<open>length events\<close> more times, each time
  with the same arguments. The path under \<^verbatim>\<open>publisher\<close> is absolute when the working
  directory is.
\<close>

theorem rebuild_uses_bound_target:
  assumes "HTMLRebuildHandler_init cwd target = Inr h"
  shows "\<exists>src out pub.
           find_text_strip target ''source'' = Inr src
         \<and> find_text_strip target ''output-dir'' = Inr out
         \<and> find_text_strip target ''publication'' = Inr pub
         \<and> html_calls (observe h events w)
             = html_calls w
               @ replicate (length events) (src, out, [(''publisher'', abspath cwd pub)])
         \<and> (isabs cwd \<longrightarrow> isabs (abspath cwd pub))"
proof -
  from assms obtain src out pub where f:
    "find_text_strip target ''source'' = Inr src"
    "find_text_strip target ''output-dir'' = Inr out"
    "find_text_strip target ''publication'' = Inr pub"
    and h: "h = \<lparr>ptxfile = src, output' = out, stringparams = [(''publisher'', abspath cwd pub)]\<rparr>"
    by (auto simp: HTMLRebuildHandler_init_def split: sum.splits)
  have "html_calls (observe h events w)
      = html_calls w @ replicate (length events) (src, out, [(''publisher'', abspath cwd pub)])"
    using observe_html_calls [of h events w] by (simp add: h)
  with f show ?thesis by (auto simp: isabs_abspath)
qed

text \<open>
  The target \<^verbatim>\<open>intro\<close> of the example, watched from \<^verbatim>\<open>/proj\<close>: a modification and
  a deletion give two identical calls of the builder.
\<close>

theorem rebuild_uses_bound_target_witness:
  "HTMLRebuildHandler_init ''/proj'' intro_target
     = Inr \<lparr>ptxfile = ''source/main.ptx'', output' = ''output/html'',
            stringparams = [(''publisher'', ''/proj/publication/publication.ptx'')]\<rparr>
   \<and> html_calls
       (observe \<lparr>ptxfile = ''source/main.ptx'', output' = ''output/html'',
                 stringparams = [(''publisher'', ''/proj/publication/publication.ptx'')]\<rparr>
          [\<lparr>ev_type = EvModified, src_path = ''/proj/source/main.ptx'', is_directory = False\<rparr>,
           \<lparr>ev_type = EvDeleted, src_path = ''/proj/source/old'', is_directory = True\<rparr>]
          \<lparr>info_log = [], html_calls = []\<rparr>)
       = [(''source/main.ptx'', ''output/html'', [(''publisher'', ''/proj/publication/publication.ptx'')]),
          (''source/main.ptx'', ''output/html'', [(''publisher'', ''/proj/publication/publication.ptx'')])]"
proof -
  have fs: "find_text_strip intro_target ''source'' = Inr ''source/main.ptx''"
    "find_text_strip intro_target ''output-dir'' = Inr ''output/html''"
    "find_text_strip intro_target ''publication'' = Inr ''publication/publication.ptx''"
    by (simp_all add: find_text_strip_def find_elem_def intro_target_def strip_def py_isspace_def)
  have ab: "abspath ''/proj'' ''publication/publication.ptx'' = ''/proj/publication/publication.ptx''"
    by (simp add: abspath_def normpath_def isabs_def join_def norm_comp_def)
  have init: "HTMLRebuildHandler_init ''/proj'' intro_target
     = Inr \<lparr>ptxfile = ''source/main.ptx'', output' = ''output/html'',
            stringparams = [(''publisher'', ''/proj/publication/publication.ptx'')]\<rparr>"
    by (simp add: HTMLRebuildHandler_init_def fs ab)
  show ?thesis
    using rebuild_uses_bound_target [OF init,
        of "[\<lparr>ev_type = EvModified, src_path = ''/proj/source/main.ptx'', is_directory = False\<rparr>,
           \<lparr>ev_type = EvDeleted, src_path = ''/proj/source/old'', is_directory = True\<rparr>]"
           "\<lparr>info_log = [], html_calls = []\<rparr>"]
    by (simp add: init fs ab)
qed

section \<open>Properties of the preview server\<close>

text \<open>
  Claim C5, amended. Every response to a request whose version is not
  \<^verbatim>\<open>HTTP/0.9\<close> carries the three headers that disable caching: whatever the handler
  has put into the header buffer for the requested path, \<^verbatim>\<open>end_headers\<close> writes the
  buffer followed by \<^verbatim>\<open>Cache-Control: no-cache, no-store, must-revalidate\<close>,
  \<^verbatim>\<open>Pragma: no-cache\<close>, \<^verbatim>\<open>Expires: 0\<close> and the blank line that ends the headers.
\<close>

theorem end_headers_no_cache:
  assumes "request_version self \<noteq> ''HTTP/0.9''"
  shows "wfile (end_headers self)
           = wfile self @ concat (headers_buffer self)
             @ ''Cache-Control: no-cache, no-store, must-revalidate'' @ crlf
             @ ''Pragma: no-cache'' @ crlf
             @ ''Expires: 0'' @ crlf
             @ crlf
         \<and> headers_buffer (end_headers self) = []"
  using assms
  by (simp add: end_headers_def send_my_headers_def send_header_def base_end_headers_def
      flush_headers_def)

text \<open>The headers of the answer to a request for a file that does not exist.\<close>

theorem end_headers_no_cache_witness:
  "wfile (end_headers \<lparr>request_version = ''HTTP/1.1'',
                       headers_buffer = [''HTTP/1.0 404 File not found'' @ crlf,
                                         ''Connection: close'' @ crlf],
                       wfile = []\<rparr>)
     = ''HTTP/1.0 404 File not found'' @ crlf @ ''Connection: close'' @ crlf
       @ ''Cache-Control: no-cache, no-store, must-revalidate'' @ crlf
       @ ''Pragma: no-cache'' @ crlf @ ''Expires: 0'' @ crlf @ crlf"
  using end_headers_no_cache [of "\<lparr>request_version = ''HTTP/1.1'',
                       headers_buffer = [''HTTP/1.0 404 File not found'' @ crlf,
                                         ''Connection: close'' @ crlf],
                       wfile = []\<rparr>"]
  by simp

text \<open>
  Claim C5 as stated, for every response, fails for a request of version
  \<^verbatim>\<open>HTTP/0.9\<close> (the request line \<^verbatim>\<open>GET /index.html\<close> without a version): the
  response has no header at all, so \<^verbatim>\<open>end_headers\<close> writes nothing.
\<close>

theorem end_headers_http09_counterexample:
  "wfile (end_headers \<lparr>request_version = ''HTTP/0.9'', headers_buffer = [], wfile = []\<rparr>) = []"
  by (simp add: end_headers_def send_my_headers_def send_header_def base_end_headers_def)

text \<open>In general, a handler whose request version is \<^verbatim>\<open>HTTP/0.9\<close> writes no header.\<close>

lemma end_headers_http09:
  "request_version self = ''HTTP/0.9'' \<Longrightarrow> end_headers self = self"
  by (simp add: end_headers_def send_my_headers_def send_header_def base_end_headers_def)

text \<open>
  Claim C9 says that \<^verbatim>\<open>view\<close> with a directory supplies an argument for each of the
  five parameters of \<^verbatim>\<open>run_server\<close>, so that the server starts. The call passes
  three arguments: for every directory, access policy and port it raises
  \<^verbatim>\<open>TypeError\<close>, and no server is started.
\<close>

theorem view_directory_missing_arguments:
  "view project_target target access port (Some directory) watch build' = Inl TypeError"
  by (simp add: view_def call_positional_def run_server_params_def view_run_server_args_def)

section \<open>Properties of the listening address\<close>

lemma resolve_host_loopback: "resolve_host net ''127.0.0.1'' = Some ''127.0.0.1''"
  by (simp add: resolve_host_def is_ipv4_def is_octet_def is_digit_def decimal_def)

lemma resolve_host_wildcard: "resolve_host net ''0.0.0.0'' = Some ''0.0.0.0''"
  by (simp add: resolve_host_def is_ipv4_def is_octet_def is_digit_def decimal_def)

text \<open>
  A host that does not resolve, such as the word of a policy, starts no server.
\<close>

lemma serve_forever_unresolved:
  "resolve_host net binding = None \<Longrightarrow> serve_forever net directory binding port = Inl GaiError"
  by (simp add: serve_forever_def)

text \<open>
  Claim C6, amended. \<^verbatim>\<open>view\<close> without a directory hands the policy and the port on
  unchanged; when the server then starts, it listens on the loopback address
  \<^verbatim>\<open>127.0.0.1\<close> for the private policy and on the address of all interfaces
  \<^verbatim>\<open>0.0.0.0\<close> for the public policy, and on the caller's port when that port is not
  0. For the port 0 the port is the one the system chooses.
\<close>

theorem preview_server_address:
  assumes "view project_target target access port None watch build'
             = Inr (ProjectView name access' port' watch' build'')"
    and "preview_server_start net directory access' port' = Inr srv"
  shows "(access = ''private'' \<longrightarrow> fst (server_address srv) = ''127.0.0.1'')
       \<and> (access = ''public'' \<longrightarrow> fst (server_address srv) = ''0.0.0.0'')
       \<and> (port \<noteq> 0 \<longrightarrow> snd (server_address srv) = port)
       \<and> (port = 0 \<longrightarrow> snd (server_address srv) = ephemeral_port net)"
proof -
  from assms(1) have a: "access' = access" and p: "port' = port"
    by (auto simp: view_def Let_def split: if_splits)
  have pub: "resolve_host net (binding_for_access ''public'') = Some ''0.0.0.0''"
    by (simp add: binding_for_access_def resolve_host_wildcard)
  have priv: "resolve_host net (binding_for_access ''private'') = Some ''127.0.0.1''"
    by (simp add: binding_for_access_def resolve_host_loopback)
  from assms(2) show ?thesis
    unfolding a p preview_server_start_def serve_forever_def
    by (auto simp: pub priv Let_def split: option.splits if_splits)
qed

text \<open>
  The target \<^verbatim>\<open>intro\<close> viewed with the public policy on port 8000: the server listens
  on \<^verbatim>\<open>('0.0.0.0', 8000)\<close>.
\<close>

theorem preview_server_address_witness:
  "view (\<lambda>name. True) (Some ''intro'') ''public'' 8000 None False False
     = Inr (ProjectView (Some ''intro'') ''public'' 8000 False False)
   \<and> map_sum id server_address (preview_server_start example_net ''output/html'' ''public'' 8000)
       = Inr (''0.0.0.0'', 8000)"
proof -
  have v: "view (\<lambda>name. True) (Some ''intro'') ''public'' 8000 None False False
     = Inr (ProjectView (Some ''intro'') ''public'' 8000 False False)"
    by (simp add: view_def)
  have s: "preview_server_start example_net ''output/html'' ''public'' 8000
     = Inr \<lparr>server_address = (''0.0.0.0'', 8000), allow_reuse_address = True,
            served_directory = ''output/html''\<rparr>"
    by (simp add: preview_server_start_def serve_forever_def binding_for_access_def
        resolve_host_wildcard example_net_def)
  show ?thesis
    using preview_server_address [OF v s] v s by simp
qed

text \<open>
  Claim C6 as stated, with the caller's port as the port in use for every start, fails
  for the port 0 (\<^verbatim>\<open>--port 0\<close>): the server listens on a port that the system has
  chosen, here 49152.
\<close>

theorem preview_server_port_counterexample:
  "map_sum id server_address (preview_server_start example_net ''output/html'' ''private'' 0)
     = Inr (''127.0.0.1'', 49152)"
  by (simp add: preview_server_start_def serve_forever_def binding_for_access_def
      resolve_host_loopback example_net_def)

section \<open>Properties of the preview session\<close>





section \<open>Properties of \<^verbatim>\<open>working_directory\<close>\<close>

lemma chdir_cwd:
  assumes "isabs c" "normpath c = c" "c \<in> proc_dirs p"
  shows "chdir c p = Inr (p\<lparr>proc_cwd := c\<rparr>)"
proof -
  have "c \<noteq> []" using assms(1) by (auto simp: isabs_def)
  moreover have "abspath (proc_cwd p) c = c" using assms(1,2) by (simp add: abspath_def)
  ultimately show ?thesis using assms(3) by (simp add: chdir_def)
qed

text \<open>
  Claim C10, amended. Let the working directory on entry be an absolute normalized path
  (as \<^verbatim>\<open>os.getcwd\<close> returns it), and let it still be a directory the process can
  enter when the body has run. Then, for every path and every body, the working
  directory after the block is the one on entry, whether the body ended normally or
  raised; and when the block was entered, the outcome of the block is the outcome of
  the body (its exception propagates). When the block cannot be entered the working
  directory is unchanged as well.
\<close>

theorem working_directory_restores:
  assumes "isabs (proc_cwd p)" and "normpath (proc_cwd p) = proc_cwd p"
    and "\<forall>p1. chdir path p = Inr p1 \<longrightarrow> proc_cwd p \<in> proc_dirs (snd (body p1))"
  shows "proc_cwd (snd (working_directory path body p)) = proc_cwd p
       \<and> (\<forall>p1. getcwd p = Inr (proc_cwd p) \<and> chdir path p = Inr p1
             \<longrightarrow> fst (working_directory path body p) = fst (body p1))"
proof (cases "getcwd p")
  case (Inl e)
  then show ?thesis by (auto simp: working_directory_def getcwd_def split: if_splits)
next
  case (Inr c)
  then have c: "c = proc_cwd p" by (auto simp: getcwd_def split: if_splits)
  show ?thesis
  proof (cases "chdir path p")
    case (Inl e)
    then show ?thesis using Inr by (simp add: working_directory_def)
  next
    case (Inr p1)
    obtain r p2 where b: "body p1 = (r, p2)" by (cases "body p1")
    with assms(3) Inr have "proc_cwd p \<in> proc_dirs p2" by auto
    then have "chdir (proc_cwd p) p2 = Inr (p2\<lparr>proc_cwd := proc_cwd p\<rparr>)"
      using assms(1,2) by (simp add: chdir_cwd)
    then show ?thesis
      using \<open>getcwd p = Inr c\<close> Inr b c by (simp add: working_directory_def)
  qed
qed

text \<open>
  A body that changes the working directory and then raises, run in the relative path
  \<^verbatim>\<open>output\<close> from \<^verbatim>\<open>/proj\<close>: the exception leaves the block and the working
  directory is \<^verbatim>\<open>/proj\<close> again.
\<close>

theorem working_directory_restores_witness:
  "proc_cwd (snd (working_directory ''output''
       (\<lambda>q. (Inl IndexError :: py_error + unit, q\<lparr>proc_cwd := ''/tmp''\<rparr>))
       \<lparr>proc_cwd = ''/proj'', proc_dirs = {''/proj'', ''/proj/output'', ''/tmp''}\<rparr>)) = ''/proj''
   \<and> fst (working_directory ''output''
       (\<lambda>q. (Inl IndexError :: py_error + unit, q\<lparr>proc_cwd := ''/tmp''\<rparr>))
       \<lparr>proc_cwd = ''/proj'', proc_dirs = {''/proj'', ''/proj/output'', ''/tmp''}\<rparr>) = Inl IndexError"
  using working_directory_restores [of
      "\<lparr>proc_cwd = ''/proj'', proc_dirs = {''/proj'', ''/proj/output'', ''/tmp''}\<rparr>"
      "''output''" "\<lambda>q. (Inl IndexError :: py_error + unit, q\<lparr>proc_cwd := ''/tmp''\<rparr>)"]
  by (simp add: getcwd_def chdir_def abspath_def normpath_def isabs_def norm_comp_def join_def)

text \<open>
  Claim C10 as stated, for every body, fails for a body that removes the directory the
  block was entered from: the \<^verbatim>\<open>os.chdir\<close> of the \<^verbatim>\<open>finally\<close> clause raises, and the
  process stays in \<^verbatim>\<open>/tmp\<close>.
\<close>

theorem working_directory_counterexample:
  "proc_cwd (snd (working_directory ''/tmp''
       (\<lambda>p. (Inr () :: py_error + unit, p\<lparr>proc_dirs := proc_dirs p - {''/proj''}\<rparr>))
       \<lparr>proc_cwd = ''/proj'', proc_dirs = {''/proj'', ''/tmp''}\<rparr>)) = ''/tmp''"
  by (simp add: working_directory_def getcwd_def chdir_def abspath_def normpath_def isabs_def
      norm_comp_def)

text \<open>
  In general, when the directory of the entry cannot be entered any more, the block ends
  with the exception of \<^verbatim>\<open>os.chdir\<close> and the process stays where the body left
  it.
\<close>

lemma working_directory_not_restored:
  assumes "getcwd p = Inr c" and "chdir path p = Inr p1" and "body p1 = (r, p2)"
    and "chdir c p2 = Inl e"
  shows "working_directory path body p = (Inl e, p2)"
  using assms by (simp add: working_directory_def)

section \<open>Properties of the target that \<^verbatim>\<open>build\<close> resolves\<close>

lemma merged_resolve_field: "merged ov mv (resolve_field ov mv d)"
  by (auto simp: merged_def resolve_field_def)

text \<open>
  Claim C1. When \<^verbatim>\<open>build\<close> finds the manifest and resolves a target, the target comes
  from the manifest node of the requested target and the options of the command line,
  and each of its fields format, source, output directory, publication path and
  transform path is merged: it is the value of the option when the option was given
  (the empty string included), and the value of the manifest node when the option was
  not given and the node has one. An option that was not given erases nothing.
\<close>

theorem build_overrides_take_precedence:
  assumes "build env project_target defaults opts = Inr (Resolved t)"
    and "project_path (py_frames env) (fs_isfile env) (import_cwd env) = Inr (Some root)"
  shows "\<exists>node. project_target (opt_target opts) = Some node
      \<and> merged (opt_format opts) (child_text (Some node) ''format'') (t_format t)
      \<and> merged (opt_source opts) (child_text (Some node) ''source'') (t_source t)
      \<and> merged (opt_output opts) (child_text (Some node) ''output-dir'') (t_output_dir t)
      \<and> merged (opt_publication opts) (child_text (Some node) ''publication'') (t_publication t)
      \<and> merged (opt_xsl opts) (child_text (Some node) ''xsl'') (t_xsl_path t)"
proof -
  from assms obtain node where n: "project_target (opt_target opts) = Some node"
    and t: "t = Target_init defaults (Some node) None (opt_format opts) (opt_source opts)
                  (opt_output opts) (opt_publication opts) (opt_xsl opts)"
    by (auto simp: build_def Let_def split: if_splits option.splits sum.splits)
  show ?thesis
    using n by (simp add: t Target_init_def merged_resolve_field)
qed

text \<open>
  The spec's example: the manifest target has the format \<^verbatim>\<open>html\<close> and the source
  \<^verbatim>\<open>main.ptx\<close>, and the command line gives the format \<^verbatim>\<open>pdf\<close> only. The resolved
  target has the format \<^verbatim>\<open>pdf\<close> and the source \<^verbatim>\<open>main.ptx\<close>.
\<close>

theorem build_overrides_take_precedence_witness:
  "build example_env (\<lambda>name. Some (Element ''target'' None
          [Element ''alias'' (Some ''web'') [] None,
           Element ''format'' (Some ''html'') [] None,
           Element ''source'' (Some ''main.ptx'') [] None] None))
     \<lparr>t_name = None, t_format = ''html'', t_source = ''source/main.ptx'',
      t_output_dir = ''output'', t_publication = ''publication.ptx'', t_xsl_path = []\<rparr>
     \<lparr>opt_target = None, opt_format = Some ''pdf'', opt_source = None, opt_output = None,
      opt_stringparam = [], opt_xsl = None, opt_publication = None, opt_clean = False,
      opt_generate = None, opt_webwork = False, opt_diagrams = False,
      opt_diagrams_format = ''defaults'', opt_only_assets = False\<rparr>
   = Inr (Resolved \<lparr>t_name = None, t_format = ''pdf'', t_source = ''main.ptx'',
               t_output_dir = ''output'', t_publication = ''publication.ptx'',
               t_xsl_path = []\<rparr>)"
proof -
  have pp: "project_path (py_frames example_env) (fs_isfile example_env)
              (import_cwd example_env) = Inr (Some ''/proj'')"
    by (simp add: example_env_def path_eval)
  have b: "build example_env (\<lambda>name. Some (Element ''target'' None
          [Element ''alias'' (Some ''web'') [] None,
           Element ''format'' (Some ''html'') [] None,
           Element ''source'' (Some ''main.ptx'') [] None] None))
     \<lparr>t_name = None, t_format = ''html'', t_source = ''source/main.ptx'',
      t_output_dir = ''output'', t_publication = ''publication.ptx'', t_xsl_path = []\<rparr>
     \<lparr>opt_target = None, opt_format = Some ''pdf'', opt_source = None, opt_output = None,
      opt_stringparam = [], opt_xsl = None, opt_publication = None, opt_clean = False,
      opt_generate = None, opt_webwork = False, opt_diagrams = False,
      opt_diagrams_format = ''defaults'', opt_only_assets = False\<rparr>
   = Inr (Resolved (Target_init
       \<lparr>t_name = None, t_format = ''html'', t_source = ''source/main.ptx'',
        t_output_dir = ''output'', t_publication = ''publication.ptx'', t_xsl_path = []\<rparr>
       (Some (Element ''target'' None
          [Element ''alias'' (Some ''web'') [] None,
           Element ''format'' (Some ''html'') [] None,
           Element ''source'' (Some ''main.ptx'') [] None] None))
       None (Some ''pdf'') None None None None))"
    by (simp add: build_def pp)
  show ?thesis
    using build_overrides_take_precedence [OF b pp]
    by (simp add: b Target_init_def resolve_field_def child_text_def find_elem_def)
qed


end
